theory Spec2Isabelle
  imports Main
begin

section \<open>Data model of the artifact panel\<close>

text \<open>
  The artifact panel (\<^verbatim>\<open>src/components/artifact/artifact.tsx\<close>) is a React function
  component. Its hooks hold the state; its callbacks are the operations. Each callback is
  embedded as a function from the state before the call to the state after it, with the
  network requests it sends appended to a log.
\<close>

text \<open>
  Modelled from the spec: \<^verbatim>\<open>ArtifactKind\<close>, the \<^verbatim>\<open>kind\<close> of one of the four entries of
  \<^verbatim>\<open>artifactDefinitions\<close>. Their modules (lines 11 to 14) are not among the sources; the
  spec names the kinds text, code, image and sheet.
\<close>

datatype ArtifactKind = KText | KCode | KImage | KSheet

datatype ArtifactStatus = Streaming | Idle

text \<open>
  \<^verbatim>\<open>interface UIArtifact\<close>. The \<^verbatim>\<open>boundingBox\<close> field (four layout numbers) is read by
  none of the functions below and is left out.
\<close>

record UIArtifact =
  title :: string
  documentId :: string
  kind :: ArtifactKind
  content :: string
  isVisible :: bool
  status :: ArtifactStatus

text \<open>
  Modelled from the spec: the \<^verbatim>\<open>Document\<close> row type, imported from
  \<^verbatim>\<open>@/lib/db/schema\<close>, which is not among the sources. The spec gives a revision record
  the fields title, content, kind and createdAt, and an identity. The source reads
  \<^verbatim>\<open>content\<close> as nullable (\<^verbatim>\<open>content ?? ""\<close>), hence the option; \<^verbatim>\<open>createdAt\<close> is a
  point in time, here milliseconds as a natural number.
\<close>

record Document =
  doc_id :: string
  createdAt :: nat
  doc_title :: string
  doc_content :: "string option"
  doc_kind :: ArtifactKind

text \<open>The body of the POST request of \<^verbatim>\<open>handleContentChange\<close>, with its URL.\<close>

record WriteRequest =
  req_url :: string
  req_method :: string
  req_title :: string
  req_content :: string
  req_kind :: ArtifactKind

datatype Mode = Edit | Diff

datatype VersionChange = Next | Prev | Toggle | Latest

text \<open>
  The state of one mounted \<^verbatim>\<open>PureArtifact\<close>:
  \<^item> \<open>artifact\<close>: the value of \<^verbatim>\<open>useArtifact()\<close>;
  \<^item> \<open>cache\<close>: the data-fetching cache, from request key to the revision list stored
    under it (\<open>None\<close> is \<^verbatim>\<open>undefined\<close>);
  \<^item> \<open>mode\<close>, \<open>document\<close>, \<open>currentVersionIndex\<close>, \<open>isContentDirty\<close>: the four
    \<^verbatim>\<open>useState\<close> cells;
  \<^item> \<open>pendingFlush\<close>: the argument of the call that the debounce timer of
    \<^verbatim>\<open>useDebounceCallback(handleContentChange, 2000)\<close> still holds back, if any;
  \<^item> \<open>requests\<close>: the write requests sent so far, oldest first.
\<close>

record ArtifactState =
  artifact :: UIArtifact
  cache :: "string \<Rightarrow> Document list option"
  mode :: Mode
  document :: "Document option"
  currentVersionIndex :: int
  isContentDirty :: bool
  pendingFlush :: "string option"
  requests :: "WriteRequest list"

text \<open>The hooks' initial values: \<^verbatim>\<open>useState("edit")\<close>, \<^verbatim>\<open>useState(null)\<close>,
  \<^verbatim>\<open>useState(-1)\<close>, \<^verbatim>\<open>useState(false)\<close>; no call pending, nothing sent.\<close>

definition initialState :: "UIArtifact \<Rightarrow> (string \<Rightarrow> Document list option) \<Rightarrow> ArtifactState" where
  "initialState a c =
     \<lparr>artifact = a, cache = c, mode = Edit, document = None, currentVersionIndex = - 1,
      isContentDirty = False, pendingFlush = None, requests = []\<rparr>"

subsection \<open>JavaScript primitives used by the component\<close>

text \<open>\<^verbatim>\<open>xs[i]\<close>: the element at an integer index, \<^verbatim>\<open>undefined\<close> outside \<open>0 .. length - 1\<close>.\<close>

definition at_index :: "'a list \<Rightarrow> int \<Rightarrow> 'a option" where
  "at_index xs i = (if 0 \<le> i \<and> i < int (length xs) then Some (xs ! nat i) else None)"

text \<open>\<^verbatim>\<open>xs.at(-1)\<close>: the last element, \<^verbatim>\<open>undefined\<close> for the empty array.\<close>

definition at_last :: "'a list \<Rightarrow> 'a option" where
  "at_last xs = (if xs = [] then None else Some (last xs))"

text \<open>\<^verbatim>\<open>!s\<close> for a nullable string: true for \<^verbatim>\<open>null\<close> and for the empty string.\<close>

definition falsy :: "string option \<Rightarrow> bool" where
  "falsy s = (case s of None \<Rightarrow> True | Some t \<Rightarrow> t = [])"

text \<open>\<^verbatim>\<open>s ?? ""\<close> for a nullable string.\<close>

definition orEmpty :: "string option \<Rightarrow> string" where
  "orEmpty s = (case s of None \<Rightarrow> [] | Some t \<Rightarrow> t)"

subsection \<open>The revision-history fetch\<close>

text \<open>
  The first argument of \<^verbatim>\<open>useSWR\<close> (lines 60 to 62): the request key, or \<^verbatim>\<open>null\<close>, for which
  the hook sends no request and returns no data.
\<close>

definition documentUrl :: "string \<Rightarrow> string" where
  "documentUrl did = ''/api/document?id='' @ did"

definition documentsKey :: "UIArtifact \<Rightarrow> string option" where
  "documentsKey a =
     (if documentId a \<noteq> ''init'' \<and> status a \<noteq> Streaming
      then Some (documentUrl (documentId a)) else None)"

text \<open>\<^verbatim>\<open>documents\<close>, the \<^verbatim>\<open>data\<close> of the hook: what the cache holds under the key.\<close>

definition documents :: "ArtifactState \<Rightarrow> Document list option" where
  "documents st = (case documentsKey (artifact st) of None \<Rightarrow> None | Some k \<Rightarrow> cache st k)"

text \<open>
  The effect of lines 70 to 83, run when \<^verbatim>\<open>documents\<close> changes: a non-empty history makes
  its last record the current document, selects the last index and copies the record's
  content into the artifact.
\<close>

definition syncDocuments :: "ArtifactState \<Rightarrow> ArtifactState" where
  "syncDocuments st =
     (case documents st of
        None \<Rightarrow> st
      | Some ds \<Rightarrow>
          (case at_last ds of
             None \<Rightarrow> st
           | Some mostRecentDocument \<Rightarrow>
               st\<lparr>document := Some mostRecentDocument,
                  currentVersionIndex := int (length ds) - 1,
                  artifact := (artifact st)\<lparr>content := orEmpty (doc_content mostRecentDocument)\<rparr>\<rparr>))"

section \<open>Revision navigation\<close>

text \<open>
  \<^verbatim>\<open>handleVersionChange\<close> (lines 162 to 183). The guards of \<^verbatim>\<open>prev\<close> and \<^verbatim>\<open>next\<close> read
  \<^verbatim>\<open>currentVersionIndex\<close> as the render saw it, the updates are functional; one call is
  made per render, so both are the state's value at the call.
\<close>

definition handleVersionChange :: "VersionChange \<Rightarrow> ArtifactState \<Rightarrow> ArtifactState" where
  "handleVersionChange vtype st =
     (case documents st of
        None \<Rightarrow> st
      | Some ds \<Rightarrow>
          (let st1 = (if vtype = Latest
                      then st\<lparr>currentVersionIndex := int (length ds) - 1, mode := Edit\<rparr>
                      else st);
               st2 = (if vtype = Toggle
                      then st1\<lparr>mode := (if mode st1 = Edit then Diff else Edit)\<rparr>
                      else st1)
           in if vtype = Prev then
                (if currentVersionIndex st > 0
                 then st2\<lparr>currentVersionIndex := currentVersionIndex st2 - 1\<rparr> else st2)
              else if vtype = Next then
                (if currentVersionIndex st < int (length ds) - 1
                 then st2\<lparr>currentVersionIndex := currentVersionIndex st2 + 1\<rparr> else st2)
              else st2))"

text \<open>A sequence of navigation operations, applied first to last.\<close>

fun navigate :: "VersionChange list \<Rightarrow> ArtifactState \<Rightarrow> ArtifactState" where
  "navigate [] st = st"
| "navigate (v # vs) st = navigate vs (handleVersionChange v st)"

text \<open>The selected index points into the loaded history.\<close>

definition indexInRange :: "ArtifactState \<Rightarrow> bool" where
  "indexInRange st =
     (case documents st of
        None \<Rightarrow> False
      | Some ds \<Rightarrow> 0 \<le> currentVersionIndex st \<and> currentVersionIndex st < int (length ds))"

text \<open>\<^verbatim>\<open>getDocumentContentById\<close> (lines 156 to 160).\<close>

definition getDocumentContentById :: "ArtifactState \<Rightarrow> int \<Rightarrow> string" where
  "getDocumentContentById st index =
     (case documents st of
        None \<Rightarrow> []
      | Some ds \<Rightarrow>
          (case at_index ds index of
             None \<Rightarrow> []
           | Some d \<Rightarrow> orEmpty (doc_content d)))"

section \<open>Dirty tracking and persistence\<close>

text \<open>
  How the \<^verbatim>\<open>await fetch(...)\<close> of the flush ends: the promise resolves (whatever the
  response's status code is, the source does not look at it), or it rejects and the
  rest of the asynchronous callback does not run.
\<close>

datatype FetchOutcome = Resolved | Rejected

text \<open>
  \<^verbatim>\<open>handleContentChange\<close> (lines 92 to 134), the flush. \<^verbatim>\<open>artifact\<close> is an object in every
  render, so the guard of line 94 never returns. \<^verbatim>\<open>mutate(key, f, {revalidate: false})\<close>
  calls \<open>f\<close> on the cache entry of \<open>key\<close> and stores what it returns; when \<open>f\<close> throws, the
  entry stays. \<open>now\<close> is the value of \<^verbatim>\<open>new Date()\<close>.
\<close>

definition handleContentChange ::
    "FetchOutcome \<Rightarrow> nat \<Rightarrow> string \<Rightarrow> ArtifactState \<Rightarrow> ArtifactState" where
  "handleContentChange outcome now updatedContent st =
     (let key = documentUrl (documentId (artifact st)) in
      case cache st key of
        None \<Rightarrow> st
      | Some currentDocuments \<Rightarrow>
          (case at_last currentDocuments of
             None \<Rightarrow> st\<lparr>isContentDirty := False\<rparr>
           | Some currentDocument \<Rightarrow>
               if falsy (doc_content currentDocument) then st\<lparr>isContentDirty := False\<rparr>
               else if doc_content currentDocument \<noteq> Some updatedContent then
                 (let posted = st\<lparr>requests := requests st @
                        [\<lparr>req_url = key, req_method = ''POST'',
                          req_title = title (artifact st), req_content = updatedContent,
                          req_kind = kind (artifact st)\<rparr>]\<rparr>;
                      newDocument = currentDocument
                        \<lparr>doc_content := Some updatedContent, createdAt := now\<rparr>
                  in case outcome of
                       Rejected \<Rightarrow> posted
                     | Resolved \<Rightarrow>
                         posted\<lparr>isContentDirty := False,
                                cache := (cache st)(key := Some (currentDocuments @ [newDocument]))\<rparr>)
               else st))"

text \<open>
  \<^verbatim>\<open>debouncedHandleContentChange\<close>, made by \<^verbatim>\<open>useDebounceCallback\<close> of the library
  \<^verbatim>\<open>usehooks-ts\<close> with a delay of 2000 ms: a call restarts the timer and replaces the
  argument held back; when the timer runs out, \<^verbatim>\<open>handleContentChange\<close> is called once with
  the argument of the last call.
\<close>

definition debouncedHandleContentChange :: "string \<Rightarrow> ArtifactState \<Rightarrow> ArtifactState" where
  "debouncedHandleContentChange updatedContent st = st\<lparr>pendingFlush := Some updatedContent\<rparr>"

definition debounceElapsed :: "FetchOutcome \<Rightarrow> nat \<Rightarrow> ArtifactState \<Rightarrow> ArtifactState" where
  "debounceElapsed outcome now st =
     (case pendingFlush st of
        None \<Rightarrow> st
      | Some updatedContent \<Rightarrow>
          handleContentChange outcome now updatedContent (st\<lparr>pendingFlush := None\<rparr>))"

text \<open>
  \<^verbatim>\<open>saveContent\<close> (lines 141 to 154), the editor's \<^verbatim>\<open>onSaveContent\<close>. \<open>outcome\<close> and \<open>now\<close>
  are used by the immediate flush only.
\<close>

definition saveContent ::
    "string \<Rightarrow> bool \<Rightarrow> FetchOutcome \<Rightarrow> nat \<Rightarrow> ArtifactState \<Rightarrow> ArtifactState" where
  "saveContent updatedContent debounce outcome now st =
     (case document st of
        None \<Rightarrow> st
      | Some d \<Rightarrow>
          if Some updatedContent \<noteq> doc_content d then
            (let dirty = st\<lparr>isContentDirty := True\<rparr>
             in if debounce then debouncedHandleContentChange updatedContent dirty
                else handleContentChange outcome now updatedContent dirty)
          else st)"

section \<open>The initial-text query parameter of the chat view\<close>

text \<open>
  The message that the effect of \<^verbatim>\<open>Chat\<close> hands to \<^verbatim>\<open>sendMessage\<close>: a role and a list of
  parts, here text parts only.
\<close>

datatype Role = User | Assistant

datatype Part = TextPart string

record SentMessage =
  role :: Role
  parts :: "Part list"

text \<open>
  What the effect of lines 118 to 128 reads and writes: the \<^verbatim>\<open>hasAppendedQuery\<close> cell, the
  messages handed to \<^verbatim>\<open>sendMessage\<close> (oldest first) and the address the browser shows.
\<close>

record ChatState =
  hasAppendedQuery :: bool
  sent :: "SentMessage list"
  visibleUrl :: string

text \<open>A freshly mounted chat view: \<^verbatim>\<open>useState(false)\<close>, nothing sent.\<close>

definition mountChat :: "string \<Rightarrow> ChatState" where
  "mountChat url = \<lparr>hasAppendedQuery = False, sent = [], visibleUrl = url\<rparr>"

text \<open>
  One run of the effect in a render pass. \<open>chatId\<close> is the prop \<^verbatim>\<open>id\<close>, \<open>query\<close> the value
  of \<^verbatim>\<open>searchParams.get("query")\<close> in that pass (\<open>None\<close> is \<^verbatim>\<open>null\<close>). The test
  \<^verbatim>\<open>query && ...\<close> fails for \<^verbatim>\<open>null\<close> and for the empty string.
\<close>

definition queryEffect :: "string \<Rightarrow> string option \<Rightarrow> ChatState \<Rightarrow> ChatState" where
  "queryEffect chatId query st =
     (case query of
        None \<Rightarrow> st
      | Some q \<Rightarrow>
          if q \<noteq> [] \<and> \<not> hasAppendedQuery st then
            st\<lparr>sent := sent st @ [\<lparr>role = User, parts = [TextPart q]\<rparr>],
               hasAppendedQuery := True,
               visibleUrl := ''/chat/'' @ chatId\<rparr>
          else st)"

text \<open>Successive render passes, each with the query value the pass reads.\<close>

fun renderPasses :: "string \<Rightarrow> string option list \<Rightarrow> ChatState \<Rightarrow> ChatState" where
  "renderPasses chatId [] st = st"
| "renderPasses chatId (q # qs) st = renderPasses chatId qs (queryEffect chatId q st)"

section \<open>Scenarios and example states\<close>

text \<open>
  A panel mounted with artifact \<open>a\<close> over cache \<open>c\<close>, after the effect that follows the
  history fetch has run.
\<close>

definition loadedState :: "UIArtifact \<Rightarrow> (string \<Rightarrow> Document list option) \<Rightarrow> ArtifactState" where
  "loadedState a c = syncDocuments (initialState a c)"

text \<open>
  The editing scenario of the specification: the editor reports new content with
  debouncing, then the debounce timer runs out.
\<close>

definition editAndWait :: "string \<Rightarrow> FetchOutcome \<Rightarrow> nat \<Rightarrow> ArtifactState \<Rightarrow> ArtifactState" where
  "editAndWait updatedContent outcome now st =
     debounceElapsed outcome now (saveContent updatedContent True outcome now st)"

text \<open>Concrete inputs: an idle text artifact, its revisions, and a cache that holds them.\<close>

definition exampleArtifact :: UIArtifact where
  "exampleArtifact =
     \<lparr>title = ''Essay'', documentId = ''doc-1'', kind = KText, content = [],
      isVisible = True, status = Idle\<rparr>"

definition exampleRevision :: "string option \<Rightarrow> nat \<Rightarrow> Document" where
  "exampleRevision c t =
     \<lparr>doc_id = ''doc-1'', createdAt = t, doc_title = ''Essay'', doc_content = c, doc_kind = KText\<rparr>"

definition exampleCache :: "Document list \<Rightarrow> string \<Rightarrow> Document list option" where
  "exampleCache ds = (\<lambda>k. if k = ''/api/document?id=doc-1'' then Some ds else None)"

definition exampleState :: "Document list \<Rightarrow> ArtifactState" where
  "exampleState ds = loadedState exampleArtifact (exampleCache ds)"

definition threeRevisions :: "Document list" where
  "threeRevisions =
     [exampleRevision (Some ''A'') 1, exampleRevision (Some ''B'') 2, exampleRevision (Some ''C'') 3]"

section \<open>The loaded state\<close>

lemma documents_update [simp]:
  "documents (st\<lparr>mode := m\<rparr>) = documents st"
  "documents (st\<lparr>currentVersionIndex := i\<rparr>) = documents st"
  "documents (st\<lparr>document := d\<rparr>) = documents st"
  "documents (st\<lparr>isContentDirty := b\<rparr>) = documents st"
  "documents (st\<lparr>pendingFlush := p\<rparr>) = documents st"
  "documents (st\<lparr>requests := r\<rparr>) = documents st"
  by (simp_all add: documents_def split: option.splits)

lemma documentsKey_content [simp]: "documentsKey (a\<lparr>content := x\<rparr>) = documentsKey a"
  by (simp add: documentsKey_def)

lemma documents_initialState:
  "documents (initialState a c) = Some ds \<Longrightarrow>
     documentsKey a = Some (documentUrl (documentId a)) \<and> c (documentUrl (documentId a)) = Some ds"
  by (auto simp: documents_def documentsKey_def initialState_def split: option.splits if_splits)

lemma loadedState_empty:
  "documents (initialState a c) = None \<or> documents (initialState a c) = Some [] \<Longrightarrow>
     loadedState a c = initialState a c"
  by (auto simp: loadedState_def syncDocuments_def at_last_def)

lemma loadedState_nonempty:
  "documents (initialState a c) = Some ds \<Longrightarrow> ds \<noteq> [] \<Longrightarrow>
     loadedState a c =
       \<lparr>artifact = a\<lparr>content := orEmpty (doc_content (last ds))\<rparr>,
        cache = c, mode = Edit, document = Some (last ds),
        currentVersionIndex = int (length ds) - 1, isContentDirty = False,
        pendingFlush = None, requests = []\<rparr>"
  by (simp add: loadedState_def syncDocuments_def at_last_def initialState_def)

lemma documents_loadedState: "documents (loadedState a c) = documents (initialState a c)"
  by (simp add: loadedState_def syncDocuments_def documents_def documentsKey_def initialState_def
      split: option.splits)

lemma documents_exampleInitial:
  "documents (initialState exampleArtifact (exampleCache ds)) = Some ds"
  by (simp add: documents_def documentsKey_def initialState_def exampleArtifact_def
        exampleCache_def documentUrl_def)

lemma documents_exampleState: "documents (exampleState ds) = Some ds"
  by (simp add: exampleState_def documents_loadedState documents_exampleInitial)

lemma exampleState_empty: "exampleState [] = initialState exampleArtifact (exampleCache [])"
  by (simp add: exampleState_def loadedState_empty documents_exampleInitial)

lemma exampleState_nonempty:
  "ds \<noteq> [] \<Longrightarrow> exampleState ds =
     \<lparr>artifact = exampleArtifact\<lparr>content := orEmpty (doc_content (last ds))\<rparr>,
      cache = exampleCache ds, mode = Edit, document = Some (last ds),
      currentVersionIndex = int (length ds) - 1, isContentDirty = False,
      pendingFlush = None, requests = []\<rparr>"
  by (simp add: exampleState_def loadedState_nonempty [OF documents_exampleInitial])

lemma currentVersionIndex_exampleState:
  "ds \<noteq> [] \<Longrightarrow> currentVersionIndex (exampleState ds) = int (length ds) - 1"
  by (simp add: exampleState_nonempty)

lemma cache_exampleState:
  "cache (exampleState ds) (documentUrl (documentId (artifact (exampleState ds)))) = Some ds"
  by (cases "ds = []")
     (simp_all add: exampleState_empty exampleState_nonempty initialState_def exampleArtifact_def
        exampleCache_def documentUrl_def)

lemma cache_dirty_exampleState:
  "cache ((exampleState ds)\<lparr>isContentDirty := b\<rparr>)
     (documentUrl (documentId (artifact ((exampleState ds)\<lparr>isContentDirty := b\<rparr>)))) = Some ds"
  using cache_exampleState [of ds] by simp

section \<open>Revision navigation: the selected index and the display mode\<close>

lemma documents_handleVersionChange: "documents (handleVersionChange v st) = documents st"
  by (cases v) (auto simp: handleVersionChange_def documents_def Let_def split: option.splits)

lemma indexInRange_handleVersionChange:
  "indexInRange st \<Longrightarrow> indexInRange (handleVersionChange v st)"
  unfolding indexInRange_def documents_handleVersionChange
  by (cases v) (auto simp: handleVersionChange_def Let_def split: option.splits)

lemma documents_navigate: "documents (navigate vs st) = documents st"
  by (induction vs arbitrary: st) (simp_all add: documents_handleVersionChange)

lemma indexInRange_navigate: "indexInRange st \<Longrightarrow> indexInRange (navigate vs st)"
  by (induction vs arbitrary: st) (simp_all add: indexInRange_handleVersionChange)


lemma handleVersionChange_None: "documents st = None \<Longrightarrow> handleVersionChange v st = st"
  by (simp add: handleVersionChange_def)

lemma handleVersionChange_Prev:
  "documents st = Some ds \<Longrightarrow> handleVersionChange Prev st =
     (if currentVersionIndex st > 0
      then st\<lparr>currentVersionIndex := currentVersionIndex st - 1\<rparr> else st)"
  by (simp add: handleVersionChange_def)

lemma handleVersionChange_Next:
  "documents st = Some ds \<Longrightarrow> handleVersionChange Next st =
     (if currentVersionIndex st < int (length ds) - 1
      then st\<lparr>currentVersionIndex := currentVersionIndex st + 1\<rparr> else st)"
  by (simp add: handleVersionChange_def)

lemma handleVersionChange_Toggle:
  "documents st = Some ds \<Longrightarrow> handleVersionChange Toggle st =
     st\<lparr>mode := (if mode st = Edit then Diff else Edit)\<rparr>"
  by (simp add: handleVersionChange_def)

lemma handleVersionChange_Latest:
  "documents st = Some ds \<Longrightarrow> handleVersionChange Latest st =
     st\<lparr>currentVersionIndex := int (length ds) - 1, mode := Edit\<rparr>"
  by (simp add: handleVersionChange_def)

text \<open>
  Claim C3. Navigation never changes the history, and from a state whose selected index
  lies in \<open>0 .. historyLength - 1\<close> every sequence of \<^verbatim>\<open>prev\<close>, \<^verbatim>\<open>next\<close>, \<^verbatim>\<open>toggle\<close> and
  \<^verbatim>\<open>latest\<close> ends in a state whose selected index lies in that range again. There,
  \<^verbatim>\<open>prev\<close> at index 0 and \<^verbatim>\<open>next\<close> at index \<open>historyLength - 1\<close> return the state
  unchanged.
\<close>

theorem navigation_keeps_index_in_range:
  "indexInRange st \<Longrightarrow>
     documents (navigate vs st) = documents st \<and>
     indexInRange (navigate vs st) \<and>
     (currentVersionIndex st = 0 \<longrightarrow> handleVersionChange Prev st = st) \<and>
     (\<forall>ds. documents st = Some ds \<and> currentVersionIndex st = int (length ds) - 1
        \<longrightarrow> handleVersionChange Next st = st)"
proof -
  assume inr: "indexInRange st"
  then obtain ds where ds: "documents st = Some ds"
    by (auto simp: indexInRange_def split: option.splits)
  have "currentVersionIndex st = 0 \<longrightarrow> handleVersionChange Prev st = st"
    by (simp add: handleVersionChange_Prev [OF ds])
  moreover have "\<forall>es. documents st = Some es \<and> currentVersionIndex st = int (length es) - 1
        \<longrightarrow> handleVersionChange Next st = st"
    by (auto simp: handleVersionChange_Next)
  ultimately show ?thesis
    using inr by (simp add: documents_navigate indexInRange_navigate)
qed

theorem navigation_keeps_index_in_range_witness:
  "indexInRange (exampleState threeRevisions) \<and>
   indexInRange (navigate [Prev, Prev, Prev, Toggle, Next, Latest, Next, Next] (exampleState threeRevisions)) \<and>
   handleVersionChange Next (exampleState threeRevisions) = exampleState threeRevisions"
proof -
  have inr: "indexInRange (exampleState threeRevisions)"
    by (simp add: indexInRange_def documents_exampleState currentVersionIndex_exampleState
          threeRevisions_def)
  have "documents (exampleState threeRevisions) = Some threeRevisions \<and>
        currentVersionIndex (exampleState threeRevisions) = int (length threeRevisions) - 1"
    by (simp add: documents_exampleState currentVersionIndex_exampleState threeRevisions_def)
  with navigation_keeps_index_in_range [OF inr, of "[Prev, Prev, Prev, Toggle, Next, Latest, Next, Next]"] inr
  show ?thesis by blast
qed

text \<open>
  Claim C7. With a history loaded, \<^verbatim>\<open>latest\<close> sets the selected index to
  \<open>historyLength - 1\<close> and the display mode to \<^verbatim>\<open>edit\<close>, whatever the index and the mode
  were before, and changes nothing else.
\<close>

theorem latest_selects_last_revision_in_edit_mode:
  "documents st = Some ds \<Longrightarrow>
     currentVersionIndex (handleVersionChange Latest st) = int (length ds) - 1 \<and>
     mode (handleVersionChange Latest st) = Edit \<and>
     handleVersionChange Latest st =
       st\<lparr>currentVersionIndex := int (length ds) - 1, mode := Edit\<rparr>"
  by (simp add: handleVersionChange_Latest)

theorem latest_selects_last_revision_in_edit_mode_witness:
  "documents ((exampleState threeRevisions)\<lparr>currentVersionIndex := 0, mode := Diff\<rparr>)
     = Some threeRevisions \<and>
   currentVersionIndex (handleVersionChange Latest
     ((exampleState threeRevisions)\<lparr>currentVersionIndex := 0, mode := Diff\<rparr>)) = 2 \<and>
   mode (handleVersionChange Latest
     ((exampleState threeRevisions)\<lparr>currentVersionIndex := 0, mode := Diff\<rparr>)) = Edit"
proof -
  have ds: "documents ((exampleState threeRevisions)\<lparr>currentVersionIndex := 0, mode := Diff\<rparr>)
      = Some threeRevisions"
    by (simp add: documents_exampleState)
  have "int (length threeRevisions) - 1 = 2"
    by (simp add: threeRevisions_def)
  with latest_selects_last_revision_in_edit_mode [OF ds] ds show ?thesis
    by simp
qed

text \<open>
  Claim C8. In every state \<^verbatim>\<open>toggle\<close> leaves the selected index unchanged, changes no
  part of the state but the display mode, and undoes itself when applied twice. With a
  history loaded it turns \<^verbatim>\<open>edit\<close> into \<^verbatim>\<open>diff\<close> and \<^verbatim>\<open>diff\<close> into \<^verbatim>\<open>edit\<close>.
\<close>

theorem toggle_flips_display_mode_only:
  "currentVersionIndex (handleVersionChange Toggle st) = currentVersionIndex st \<and>
   handleVersionChange Toggle st = st\<lparr>mode := mode (handleVersionChange Toggle st)\<rparr> \<and>
   handleVersionChange Toggle (handleVersionChange Toggle st) = st \<and>
   (documents st \<noteq> None \<longrightarrow>
      mode (handleVersionChange Toggle st) = (if mode st = Edit then Diff else Edit))"
proof (cases "documents st")
  case None
  then show ?thesis by (simp add: handleVersionChange_None)
next
  case (Some ds)
  then have "documents (handleVersionChange Toggle st) = Some ds"
    by (simp add: documents_handleVersionChange)
  from handleVersionChange_Toggle [OF this] handleVersionChange_Toggle [OF Some]
  show ?thesis using Some by (cases "mode st") simp_all
qed


theorem toggle_flips_display_mode_only_witness:
  "documents (exampleState threeRevisions) \<noteq> None \<and>
   mode (exampleState threeRevisions) = Edit \<and>
   mode (handleVersionChange Toggle (exampleState threeRevisions)) = Diff \<and>
   currentVersionIndex (handleVersionChange Toggle (exampleState threeRevisions)) = 2 \<and>
   handleVersionChange Toggle (handleVersionChange Toggle (exampleState threeRevisions))
     = exampleState threeRevisions"
proof -
  have ds: "documents (exampleState threeRevisions) \<noteq> None"
    by (simp add: documents_exampleState)
  have m: "mode (exampleState threeRevisions) = Edit"
    and i: "currentVersionIndex (exampleState threeRevisions) = 2"
    by (simp_all add: exampleState_nonempty threeRevisions_def)
  from toggle_flips_display_mode_only [of "exampleState threeRevisions"] ds m i
  show ?thesis by simp
qed

section \<open>The history fetch and the lookup of a revision\<close>

text \<open>
  Claim C6. The request key of the history fetch is \<^verbatim>\<open>null\<close>, so that no request is sent
  and \<^verbatim>\<open>documents\<close> is undefined, exactly when the artifact's document id is \<^verbatim>\<open>"init"\<close> or
  its status is \<^verbatim>\<open>"streaming"\<close>; otherwise the key is the document's URL and the fetch is
  enabled.
\<close>

theorem history_fetch_suppressed_when_init_or_streaming:
  "(documentsKey a = None) = (documentId a = ''init'' \<or> status a = Streaming) \<and>
   (documentId a \<noteq> ''init'' \<and> status a \<noteq> Streaming \<longrightarrow>
      documentsKey a = Some (documentUrl (documentId a))) \<and>
   (documentId (artifact st) = ''init'' \<or> status (artifact st) = Streaming \<longrightarrow>
      documents st = None)"
  by (simp add: documentsKey_def documents_def)

theorem history_fetch_suppressed_when_init_or_streaming_witness:
  "documentsKey exampleArtifact = Some ''/api/document?id=doc-1'' \<and>
   documentsKey (exampleArtifact\<lparr>status := Streaming\<rparr>) = None \<and>
   documentsKey (exampleArtifact\<lparr>documentId := ''init''\<rparr>) = None \<and>
   documents ((exampleState threeRevisions)\<lparr>artifact := exampleArtifact\<lparr>status := Streaming\<rparr>\<rparr>) = None"
  using history_fetch_suppressed_when_init_or_streaming
          [of exampleArtifact "(exampleState threeRevisions)\<lparr>artifact := exampleArtifact\<lparr>status := Streaming\<rparr>\<rparr>"]
        history_fetch_suppressed_when_init_or_streaming
          [of "exampleArtifact\<lparr>status := Streaming\<rparr>" "exampleState threeRevisions"]
        history_fetch_suppressed_when_init_or_streaming
          [of "exampleArtifact\<lparr>documentId := ''init''\<rparr>" "exampleState threeRevisions"]
  by (simp add: exampleArtifact_def documentUrl_def)

text \<open>
  Claim C9. \<^verbatim>\<open>getDocumentContentById\<close> returns a string for every integer index: the empty
  string when the history is absent, when the index is below 0 or not below the history's
  length, and when the record's content is \<^verbatim>\<open>null\<close>; the record's content otherwise.
\<close>

theorem getDocumentContentById_total:
  "(documents st = None \<longrightarrow> getDocumentContentById st i = []) \<and>
   (\<forall>ds. documents st = Some ds \<and> (i < 0 \<or> int (length ds) \<le> i) \<longrightarrow>
      getDocumentContentById st i = []) \<and>
   (\<forall>ds. documents st = Some ds \<and> 0 \<le> i \<and> i < int (length ds) \<and>
         doc_content (ds ! nat i) = None \<longrightarrow> getDocumentContentById st i = []) \<and>
   (\<forall>ds c. documents st = Some ds \<and> 0 \<le> i \<and> i < int (length ds) \<and>
         doc_content (ds ! nat i) = Some c \<longrightarrow> getDocumentContentById st i = c)"
  by (auto simp: getDocumentContentById_def at_index_def orEmpty_def)

theorem getDocumentContentById_total_witness:
  "getDocumentContentById (exampleState threeRevisions) 3 = [] \<and>
   getDocumentContentById (exampleState threeRevisions) (- 1) = [] \<and>
   getDocumentContentById (exampleState threeRevisions) 1 = ''B'' \<and>
   getDocumentContentById (exampleState [exampleRevision None 1]) 0 = [] \<and>
   getDocumentContentById (initialState exampleArtifact (\<lambda>k. None)) 0 = []"
proof -
  have d3: "documents (exampleState threeRevisions) = Some threeRevisions"
    and d1: "documents (exampleState [exampleRevision None 1]) = Some [exampleRevision None 1]"
    by (simp_all add: documents_exampleState)
  have d0: "documents (initialState exampleArtifact (\<lambda>k. None)) = None"
    by (simp add: documents_def initialState_def split: option.splits)
  have l: "int (length threeRevisions) = 3" "doc_content (threeRevisions ! nat 1) = Some ''B''"
    "doc_content ([exampleRevision None 1] ! nat 0) = None"
    by (simp_all add: threeRevisions_def exampleRevision_def)
  from getDocumentContentById_total [of "exampleState threeRevisions" 3]
       getDocumentContentById_total [of "exampleState threeRevisions" "- 1"]
       getDocumentContentById_total [of "exampleState threeRevisions" 1]
       getDocumentContentById_total [of "exampleState [exampleRevision None 1]" 0]
       getDocumentContentById_total [of "initialState exampleArtifact (\<lambda>k. None)" 0]
       d3 d1 d0 l
  show ?thesis by simp
qed


section \<open>The flush\<close>

lemma handleContentChange_no_history:
  "cache st (documentUrl (documentId (artifact st))) = None \<Longrightarrow>
     handleContentChange outcome now c st = st"
  by (simp add: handleContentChange_def)

lemma handleContentChange_guard:
  "cache st (documentUrl (documentId (artifact st))) = Some ds \<Longrightarrow>
   ds = [] \<or> falsy (doc_content (last ds)) \<Longrightarrow>
     handleContentChange outcome now c st = st\<lparr>isContentDirty := False\<rparr>"
  by (auto simp: handleContentChange_def at_last_def)

lemma handleContentChange_unchanged:
  "cache st (documentUrl (documentId (artifact st))) = Some ds \<Longrightarrow>
   ds \<noteq> [] \<Longrightarrow> doc_content (last ds) = Some c \<Longrightarrow> c \<noteq> [] \<Longrightarrow>
     handleContentChange outcome now c st = st"
  by (simp add: handleContentChange_def at_last_def falsy_def)

lemma handleContentChange_write:
  "cache st (documentUrl (documentId (artifact st))) = Some ds \<Longrightarrow>
   ds \<noteq> [] \<Longrightarrow> \<not> falsy (doc_content (last ds)) \<Longrightarrow> doc_content (last ds) \<noteq> Some c \<Longrightarrow>
     handleContentChange outcome now c st =
       (case outcome of
          Rejected \<Rightarrow>
            st\<lparr>requests := requests st @
              [\<lparr>req_url = documentUrl (documentId (artifact st)), req_method = ''POST'',
                req_title = title (artifact st), req_content = c,
                req_kind = kind (artifact st)\<rparr>]\<rparr>
        | Resolved \<Rightarrow>
            st\<lparr>requests := requests st @
              [\<lparr>req_url = documentUrl (documentId (artifact st)), req_method = ''POST'',
                req_title = title (artifact st), req_content = c,
                req_kind = kind (artifact st)\<rparr>],
               isContentDirty := False,
               cache := (cache st)(documentUrl (documentId (artifact st)) :=
                 Some (ds @ [(last ds)\<lparr>doc_content := Some c, createdAt := now\<rparr>]))\<rparr>)"
  by (simp add: handleContentChange_def at_last_def Let_def split: FetchOutcome.splits)

text \<open>
  Claim C10. When the cached history has no latest record (it is empty), or the latest
  record's content is \<^verbatim>\<open>null\<close> or the empty string, the flush clears the dirty flag, sends
  no write request and leaves the cache as it is, whatever content is proposed.
\<close>

theorem flush_dropped_when_latest_record_missing_or_empty:
  "cache st (documentUrl (documentId (artifact st))) = Some ds \<Longrightarrow>
   ds = [] \<or> doc_content (last ds) = None \<or> doc_content (last ds) = Some [] \<Longrightarrow>
     \<not> isContentDirty (handleContentChange outcome now c st) \<and>
     requests (handleContentChange outcome now c st) = requests st \<and>
     cache (handleContentChange outcome now c st) = cache st \<and>
     handleContentChange outcome now c st = st\<lparr>isContentDirty := False\<rparr>"
proof -
  assume c: "cache st (documentUrl (documentId (artifact st))) = Some ds"
    and "ds = [] \<or> doc_content (last ds) = None \<or> doc_content (last ds) = Some []"
  then have "ds = [] \<or> falsy (doc_content (last ds))"
    by (auto simp: falsy_def)
  from handleContentChange_guard [OF c this] show ?thesis
    by simp
qed

theorem flush_dropped_when_latest_record_missing_or_empty_witness:
  "isContentDirty ((exampleState [exampleRevision (Some []) 1])\<lparr>isContentDirty := True\<rparr>) \<and>
   \<not> isContentDirty (handleContentChange Resolved 2 ''hello''
        ((exampleState [exampleRevision (Some []) 1])\<lparr>isContentDirty := True\<rparr>)) \<and>
   requests (handleContentChange Resolved 2 ''hello''
        ((exampleState [exampleRevision (Some []) 1])\<lparr>isContentDirty := True\<rparr>)) = [] \<and>
   \<not> isContentDirty (handleContentChange Resolved 2 ''hello''
        ((exampleState [])\<lparr>isContentDirty := True\<rparr>)) \<and>
   requests (handleContentChange Resolved 2 ''hello''
        ((exampleState [])\<lparr>isContentDirty := True\<rparr>)) = []"
proof -
  have e: "doc_content (last [exampleRevision (Some []) 1]) = Some []"
    by (simp add: exampleRevision_def)
  have r: "requests ((exampleState [exampleRevision (Some []) 1])\<lparr>isContentDirty := True\<rparr>) = []"
    "requests ((exampleState [])\<lparr>isContentDirty := True\<rparr>) = []"
    by (simp_all add: exampleState_nonempty exampleState_empty initialState_def)
  from flush_dropped_when_latest_record_missing_or_empty
         [OF cache_dirty_exampleState [where ds = "[exampleRevision (Some []) 1]" and b = True], of Resolved 2 "''hello''"]
       flush_dropped_when_latest_record_missing_or_empty
         [OF cache_dirty_exampleState [where ds = "[]" and b = True], of Resolved 2 "''hello''"]
       e r
  show ?thesis by simp
qed

text \<open>
  Claim C4. A flush that sends a write request which succeeds leaves a cached history
  exactly one record longer than before; the record appended carries the proposed content
  and the time of the flush. Such a flush found a latest record whose content differs from
  the proposed one.
\<close>

theorem successful_write_appends_one_revision:
  "requests (handleContentChange Resolved now c st) \<noteq> requests st \<Longrightarrow>
     \<exists>ds d. cache st (documentUrl (documentId (artifact st))) = Some ds \<and>
       ds \<noteq> [] \<and> doc_content (last ds) \<noteq> Some c \<and>
       cache (handleContentChange Resolved now c st) (documentUrl (documentId (artifact st)))
         = Some (ds @ [d]) \<and>
       length (ds @ [d]) = length ds + 1 \<and>
       doc_content d = Some c \<and> createdAt d = now"
proof -
  let ?k = "documentUrl (documentId (artifact st))"
  assume w: "requests (handleContentChange Resolved now c st) \<noteq> requests st"
  then obtain ds where ds: "cache st ?k = Some ds"
    by (cases "cache st ?k") (auto simp: handleContentChange_no_history)
  have ne: "ds \<noteq> []" and nf: "\<not> falsy (doc_content (last ds))"
    using w handleContentChange_guard [OF ds, of Resolved now c] by auto
  have diff: "doc_content (last ds) \<noteq> Some c"
  proof
    assume "doc_content (last ds) = Some c"
    moreover from this nf have "c \<noteq> []" by (simp add: falsy_def)
    ultimately show False
      using w handleContentChange_unchanged [OF ds ne, of c Resolved now] by simp
  qed
  from handleContentChange_write [OF ds ne nf diff, of Resolved now] ds ne diff
  show ?thesis by simp
qed


theorem successful_write_appends_one_revision_witness:
  "requests (handleContentChange Resolved 2 ''hello'' (exampleState [exampleRevision (Some ''A'') 1]))
     \<noteq> requests (exampleState [exampleRevision (Some ''A'') 1]) \<and>
   (\<exists>d. cache (handleContentChange Resolved 2 ''hello'' (exampleState [exampleRevision (Some ''A'') 1]))
          ''/api/document?id=doc-1'' = Some [exampleRevision (Some ''A'') 1, d] \<and>
        doc_content d = Some ''hello'' \<and> createdAt d = 2)"
proof -
  let ?st = "exampleState [exampleRevision (Some ''A'') 1]"
  have k: "documentUrl (documentId (artifact ?st)) = ''/api/document?id=doc-1''"
    by (simp add: exampleState_nonempty exampleArtifact_def documentUrl_def)
  have c: "cache ?st ''/api/document?id=doc-1'' = Some [exampleRevision (Some ''A'') 1]"
    using cache_exampleState [of "[exampleRevision (Some ''A'') 1]"] k by simp
  have w: "requests (handleContentChange Resolved 2 ''hello'' ?st) \<noteq> requests ?st"
    using handleContentChange_write [of ?st "[exampleRevision (Some ''A'') 1]" "''hello''" Resolved 2] c k
    by (simp add: exampleRevision_def falsy_def)
  from successful_write_appends_one_revision [OF w] w c k show ?thesis
    by auto
qed

text \<open>
  Claim C1, amended. For a flush against a cached history whose latest record has
  non-empty content: when the proposed content equals that content, no write request is
  sent and the cache is left as it is; when it differs, exactly one write request is
  sent, to the document's URL, carrying the artifact's title, the proposed content and the
  artifact's kind, and the dirty flag is cleared once the request has resolved.
\<close>

theorem flush_write_request_when_content_changed:
  "cache st (documentUrl (documentId (artifact st))) = Some ds \<Longrightarrow>
   ds \<noteq> [] \<Longrightarrow> doc_content (last ds) = Some old \<Longrightarrow> old \<noteq> [] \<Longrightarrow>
     (c = old \<longrightarrow>
        requests (handleContentChange outcome now c st) = requests st \<and>
        cache (handleContentChange outcome now c st) = cache st) \<and>
     (c \<noteq> old \<longrightarrow>
        requests (handleContentChange outcome now c st) = requests st @
          [\<lparr>req_url = documentUrl (documentId (artifact st)), req_method = ''POST'',
            req_title = title (artifact st), req_content = c, req_kind = kind (artifact st)\<rparr>] \<and>
        (outcome = Resolved \<longrightarrow> \<not> isContentDirty (handleContentChange outcome now c st)))"
proof -
  assume ds: "cache st (documentUrl (documentId (artifact st))) = Some ds"
    and ne: "ds \<noteq> []" and old: "doc_content (last ds) = Some old" and o: "old \<noteq> []"
  have nf: "\<not> falsy (doc_content (last ds))"
    using old o by (simp add: falsy_def)
  have "c = old \<longrightarrow> handleContentChange outcome now c st = st"
    using handleContentChange_unchanged [OF ds ne, of old outcome now] old o by auto
  moreover have "c \<noteq> old \<longrightarrow>
        requests (handleContentChange outcome now c st) = requests st @
          [\<lparr>req_url = documentUrl (documentId (artifact st)), req_method = ''POST'',
            req_title = title (artifact st), req_content = c, req_kind = kind (artifact st)\<rparr>] \<and>
        (outcome = Resolved \<longrightarrow> \<not> isContentDirty (handleContentChange outcome now c st))"
    using handleContentChange_write [OF ds ne nf, of c outcome now] old
    by (cases outcome) auto
  ultimately show ?thesis by simp
qed

theorem flush_write_request_when_content_changed_witness:
  "requests (handleContentChange Resolved 2 ''draft''
      ((exampleState [exampleRevision (Some ''draft'') 1])\<lparr>isContentDirty := True\<rparr>)) = [] \<and>
   requests (handleContentChange Resolved 2 ''hello''
      ((exampleState [exampleRevision (Some ''draft'') 1])\<lparr>isContentDirty := True\<rparr>)) =
     [\<lparr>req_url = ''/api/document?id=doc-1'', req_method = ''POST'', req_title = ''Essay'',
        req_content = ''hello'', req_kind = KText\<rparr>] \<and>
   \<not> isContentDirty (handleContentChange Resolved 2 ''hello''
      ((exampleState [exampleRevision (Some ''draft'') 1])\<lparr>isContentDirty := True\<rparr>))"
proof -
  let ?st = "(exampleState [exampleRevision (Some ''draft'') 1])\<lparr>isContentDirty := True\<rparr>"
  have l: "doc_content (last [exampleRevision (Some ''draft'') 1]) = Some ''draft''"
    by (simp add: exampleRevision_def)
  have f: "requests ?st = []" "title (artifact ?st) = ''Essay''" "kind (artifact ?st) = KText"
    "documentUrl (documentId (artifact ?st)) = ''/api/document?id=doc-1''"
    by (simp_all add: exampleState_nonempty exampleArtifact_def documentUrl_def)
  from flush_write_request_when_content_changed
         [OF cache_dirty_exampleState [where ds = "[exampleRevision (Some ''draft'') 1]" and b = True] _ l,
          of "''draft''" Resolved 2]
       flush_write_request_when_content_changed
         [OF cache_dirty_exampleState [where ds = "[exampleRevision (Some ''draft'') 1]" and b = True] _ l,
          of "''hello''" Resolved 2]
       f
  show ?thesis by simp
qed

text \<open>
  Claim C1 as stated fails twice. A flush of \<^verbatim>\<open>"draft"\<close> against a history whose latest
  content is \<^verbatim>\<open>"draft"\<close> leaves a dirty flag that was set, set. A flush of \<^verbatim>\<open>"hello"\<close>
  against a history whose latest content is the empty string sends no write request,
  though the two contents differ.
\<close>

theorem flush_claim_counterexample:
  "isContentDirty (handleContentChange Resolved 2 ''draft''
      ((exampleState [exampleRevision (Some ''draft'') 1])\<lparr>isContentDirty := True\<rparr>)) \<and>
   requests (handleContentChange Resolved 2 ''hello''
      ((exampleState [exampleRevision (Some []) 1])\<lparr>isContentDirty := True\<rparr>)) = []"
proof -
  have "handleContentChange Resolved 2 ''draft''
      ((exampleState [exampleRevision (Some ''draft'') 1])\<lparr>isContentDirty := True\<rparr>)
      = (exampleState [exampleRevision (Some ''draft'') 1])\<lparr>isContentDirty := True\<rparr>"
    by (rule handleContentChange_unchanged [OF cache_dirty_exampleState])
       (simp_all add: exampleRevision_def)
  moreover have "handleContentChange Resolved 2 ''hello''
      ((exampleState [exampleRevision (Some []) 1])\<lparr>isContentDirty := True\<rparr>)
      = (exampleState [exampleRevision (Some []) 1])\<lparr>isContentDirty := True, isContentDirty := False\<rparr>"
    by (rule handleContentChange_guard [OF cache_dirty_exampleState])
       (simp add: exampleRevision_def falsy_def)
  ultimately show ?thesis
    by (simp add: exampleState_nonempty)
qed

section \<open>The editing scenario\<close>

lemma saveContent_no_document: "document st = None \<Longrightarrow> saveContent u d outcome now st = st"
  by (simp add: saveContent_def)

lemma saveContent_debounced:
  "document st = Some d \<Longrightarrow> doc_content d \<noteq> Some u \<Longrightarrow>
     saveContent u True outcome now st = st\<lparr>isContentDirty := True, pendingFlush := Some u\<rparr>"
  by (auto simp: saveContent_def debouncedHandleContentChange_def)

lemma debounceElapsed_idle: "pendingFlush st = None \<Longrightarrow> debounceElapsed outcome now st = st"
  by (simp add: debounceElapsed_def)

lemma debounceElapsed_pending:
  "pendingFlush st = Some u \<Longrightarrow>
     debounceElapsed outcome now st = handleContentChange outcome now u (st\<lparr>pendingFlush := None\<rparr>)"
  by (simp add: debounceElapsed_def)

lemma editAndWait_empty_history:
  "documents (initialState a c) = None \<or> documents (initialState a c) = Some [] \<Longrightarrow>
     saveContent u True outcome now (loadedState a c) = initialState a c \<and>
     editAndWait u outcome now (loadedState a c) = initialState a c"
proof -
  assume "documents (initialState a c) = None \<or> documents (initialState a c) = Some []"
  then have l: "loadedState a c = initialState a c"
    by (rule loadedState_empty)
  have "document (initialState a c) = None" "pendingFlush (initialState a c) = None"
    by (simp_all add: initialState_def)
  then show ?thesis
    by (simp add: l editAndWait_def saveContent_no_document debounceElapsed_idle)
qed

lemma editAndWait_changed_content:
  assumes ds: "documents (initialState a c) = Some ds" and ne: "ds \<noteq> []"
    and old: "doc_content (last ds) = Some old" and o: "old \<noteq> []" and u: "old \<noteq> u"
  shows "saveContent u True outcome now (loadedState a c) =
           (loadedState a c)\<lparr>isContentDirty := True, pendingFlush := Some u\<rparr>"
    and "editAndWait u Resolved now (loadedState a c) =
           (loadedState a c)
             \<lparr>requests :=
                [\<lparr>req_url = documentUrl (documentId a), req_method = ''POST'',
                  req_title = title a, req_content = u, req_kind = kind a\<rparr>],
              cache := c(documentUrl (documentId a) :=
                Some (ds @ [(last ds)\<lparr>doc_content := Some u, createdAt := now\<rparr>]))\<rparr>"
proof -
  note l = loadedState_nonempty [OF ds ne]
  have d: "document (loadedState a c) = Some (last ds)"
    by (simp add: l)
  from u old have "doc_content (last ds) \<noteq> Some u"
    by simp
  from saveContent_debounced [OF d this]
  show s: "saveContent u True outcome now (loadedState a c) =
      (loadedState a c)\<lparr>isContentDirty := True, pendingFlush := Some u\<rparr>" for outcome .
  let ?st = "(loadedState a c)\<lparr>isContentDirty := True, pendingFlush := None\<rparr>"
  have k: "documentUrl (documentId (artifact ?st)) = documentUrl (documentId a)"
    by (simp add: l)
  have c: "cache ?st (documentUrl (documentId (artifact ?st))) = Some ds"
    using documents_initialState [OF ds] by (simp add: l)
  have nf: "\<not> falsy (doc_content (last ds))"
    using old o by (simp add: falsy_def)
  have diff: "doc_content (last ds) \<noteq> Some u"
    using old u by simp
  have "editAndWait u Resolved now (loadedState a c) = handleContentChange Resolved now u ?st"
    by (simp add: editAndWait_def s debounceElapsed_pending)
  also have "\<dots> = (loadedState a c)
             \<lparr>requests :=
                [\<lparr>req_url = documentUrl (documentId a), req_method = ''POST'',
                  req_title = title a, req_content = u, req_kind = kind a\<rparr>],
              cache := c(documentUrl (documentId a) :=
                Some (ds @ [(last ds)\<lparr>doc_content := Some u, createdAt := now\<rparr>]))\<rparr>"
    unfolding handleContentChange_write [OF c ne nf diff, of Resolved now]
    by (simp add: l)
  finally show "editAndWait u Resolved now (loadedState a c) =
           (loadedState a c)
             \<lparr>requests :=
                [\<lparr>req_url = documentUrl (documentId a), req_method = ''POST'',
                  req_title = title a, req_content = u, req_kind = kind a\<rparr>],
              cache := c(documentUrl (documentId a) :=
                Some (ds @ [(last ds)\<lparr>doc_content := Some u, createdAt := now\<rparr>]))\<rparr>" .
qed

text \<open>
  Claim C2, amended. From a freshly loaded panel whose history is empty, an edit is
  ignored: the dirty flag stays false, no flush is scheduled, and when the debounce window
  has run out no write request has been sent, the history is still empty and the dirty
  flag is false. From a freshly loaded panel whose history is not empty and whose latest
  record has non-empty content other than the edited content, the edit sets the dirty
  flag and sends nothing yet; when the debounce window has run out and the request has
  resolved, exactly one write request has been sent, carrying the edited content, the
  history is one record longer, its last record carries the edited content, and the dirty
  flag is false.
\<close>

theorem edit_scenario_after_debounce:
  "(documents (initialState a c) = Some [] \<longrightarrow>
      \<not> isContentDirty (saveContent u True outcome now (loadedState a c)) \<and>
      pendingFlush (saveContent u True outcome now (loadedState a c)) = None \<and>
      requests (editAndWait u outcome now (loadedState a c)) = [] \<and>
      documents (editAndWait u outcome now (loadedState a c)) = Some [] \<and>
      \<not> isContentDirty (editAndWait u outcome now (loadedState a c))) \<and>
   (documents (initialState a c) = Some ds \<and> ds \<noteq> [] \<and>
    doc_content (last ds) = Some old \<and> old \<noteq> [] \<and> old \<noteq> u \<longrightarrow>
      isContentDirty (saveContent u True outcome now (loadedState a c)) \<and>
      requests (saveContent u True outcome now (loadedState a c)) = [] \<and>
      requests (editAndWait u Resolved now (loadedState a c)) =
        [\<lparr>req_url = documentUrl (documentId a), req_method = ''POST'',
          req_title = title a, req_content = u, req_kind = kind a\<rparr>] \<and>
      documents (editAndWait u Resolved now (loadedState a c)) =
        Some (ds @ [(last ds)\<lparr>doc_content := Some u, createdAt := now\<rparr>]) \<and>
      length (ds @ [(last ds)\<lparr>doc_content := Some u, createdAt := now\<rparr>]) = length ds + 1 \<and>
      \<not> isContentDirty (editAndWait u Resolved now (loadedState a c)))"
proof (intro conjI impI)
  assume e: "documents (initialState a c) = Some []"
  then have s: "saveContent u True outcome now (loadedState a c) = initialState a c"
    and w: "editAndWait u outcome now (loadedState a c) = initialState a c"
    using editAndWait_empty_history [of a c u outcome now] by simp_all
  show "\<not> isContentDirty (saveContent u True outcome now (loadedState a c))"
    and "pendingFlush (saveContent u True outcome now (loadedState a c)) = None"
    and "requests (editAndWait u outcome now (loadedState a c)) = []"
    and "\<not> isContentDirty (editAndWait u outcome now (loadedState a c))"
    by (simp_all add: s w initialState_def)
  show "documents (editAndWait u outcome now (loadedState a c)) = Some []"
    by (simp add: w e)
next
  assume h: "documents (initialState a c) = Some ds \<and> ds \<noteq> [] \<and>
    doc_content (last ds) = Some old \<and> old \<noteq> [] \<and> old \<noteq> u"
  then have ds: "documents (initialState a c) = Some ds" and ne: "ds \<noteq> []"
    and old: "doc_content (last ds) = Some old" and o: "old \<noteq> []" and u: "old \<noteq> u"
    by simp_all
  note l = loadedState_nonempty [OF ds ne]
  have s: "saveContent u True outcome now (loadedState a c) =
           (loadedState a c)\<lparr>isContentDirty := True, pendingFlush := Some u\<rparr>"
    by (rule editAndWait_changed_content(1) [OF ds ne old o u])
  have w: "editAndWait u Resolved now (loadedState a c) =
           (loadedState a c)
             \<lparr>requests :=
                [\<lparr>req_url = documentUrl (documentId a), req_method = ''POST'',
                  req_title = title a, req_content = u, req_kind = kind a\<rparr>],
              cache := c(documentUrl (documentId a) :=
                Some (ds @ [(last ds)\<lparr>doc_content := Some u, createdAt := now\<rparr>]))\<rparr>"
    by (rule editAndWait_changed_content(2) [OF ds ne old o u])
  have r: "requests (loadedState a c) = []" and nd: "\<not> isContentDirty (loadedState a c)"
    and k: "documentsKey (artifact (loadedState a c)) = Some (documentUrl (documentId a))"
    using documents_initialState [OF ds] by (simp_all add: l)
  show "isContentDirty (saveContent u True outcome now (loadedState a c))"
    and "requests (saveContent u True outcome now (loadedState a c)) = []"
    unfolding s by (simp_all add: r)
  show "requests (editAndWait u Resolved now (loadedState a c)) =
        [\<lparr>req_url = documentUrl (documentId a), req_method = ''POST'',
          req_title = title a, req_content = u, req_kind = kind a\<rparr>]"
    unfolding w by simp
  show "\<not> isContentDirty (editAndWait u Resolved now (loadedState a c))"
    unfolding w by (simp add: nd)
  show "length (ds @ [(last ds)\<lparr>doc_content := Some u, createdAt := now\<rparr>]) = length ds + 1"
    by simp
  show "documents (editAndWait u Resolved now (loadedState a c)) =
        Some (ds @ [(last ds)\<lparr>doc_content := Some u, createdAt := now\<rparr>])"
    unfolding w by (simp add: documents_def k)
qed

theorem edit_scenario_after_debounce_witness:
  "\<not> isContentDirty (saveContent ''hello'' True Resolved 5 (exampleState [])) \<and>
   requests (editAndWait ''hello'' Resolved 5 (exampleState [])) = [] \<and>
   documents (editAndWait ''hello'' Resolved 5 (exampleState [])) = Some [] \<and>
   isContentDirty (saveContent ''hello'' True Resolved 5
     (exampleState [exampleRevision (Some ''draft'') 1])) \<and>
   requests (editAndWait ''hello'' Resolved 5 (exampleState [exampleRevision (Some ''draft'') 1])) =
     [\<lparr>req_url = ''/api/document?id=doc-1'', req_method = ''POST'', req_title = ''Essay'',
        req_content = ''hello'', req_kind = KText\<rparr>] \<and>
   documents (editAndWait ''hello'' Resolved 5 (exampleState [exampleRevision (Some ''draft'') 1])) =
     Some [exampleRevision (Some ''draft'') 1, exampleRevision (Some ''hello'') 5] \<and>
   \<not> isContentDirty (editAndWait ''hello'' Resolved 5
     (exampleState [exampleRevision (Some ''draft'') 1]))"
proof -
  have l: "doc_content (last [exampleRevision (Some ''draft'') 1]) = Some ''draft''"
    "(last [exampleRevision (Some ''draft'') 1])\<lparr>doc_content := Some ''hello'', createdAt := 5\<rparr>
       = exampleRevision (Some ''hello'') 5"
    by (simp_all add: exampleRevision_def)
  have a: "documentUrl (documentId exampleArtifact) = ''/api/document?id=doc-1''"
    "title exampleArtifact = ''Essay''" "kind exampleArtifact = KText"
    by (simp_all add: exampleArtifact_def documentUrl_def)
  from edit_scenario_after_debounce
         [of exampleArtifact "exampleCache []" "''hello''" Resolved 5 "[]" "[]"]
       edit_scenario_after_debounce
         [of exampleArtifact "exampleCache [exampleRevision (Some ''draft'') 1]" "''hello''"
             Resolved 5 "[exampleRevision (Some ''draft'') 1]" "''draft''"]
       documents_exampleInitial [of "[]"]
       documents_exampleInitial [of "[exampleRevision (Some ''draft'') 1]"]
       l a
  show ?thesis
    by (simp add: exampleState_def)
qed

text \<open>
  Claim C2 as stated fails: with an empty history there is no current document, so the
  edit to \<^verbatim>\<open>"hello"\<close> does not set the dirty flag, and after the debounce window no write
  request has been sent and the history is still empty.
\<close>

theorem edit_scenario_empty_history_counterexample:
  "\<not> isContentDirty (saveContent ''hello'' True Resolved 5 (exampleState [])) \<and>
   requests (editAndWait ''hello'' Resolved 5 (exampleState [])) = [] \<and>
   documents (editAndWait ''hello'' Resolved 5 (exampleState [])) = Some []"
proof -
  have "saveContent ''hello'' True Resolved 5 (exampleState []) =
          initialState exampleArtifact (exampleCache []) \<and>
        editAndWait ''hello'' Resolved 5 (exampleState []) =
          initialState exampleArtifact (exampleCache [])"
    unfolding exampleState_def
    by (rule editAndWait_empty_history) (simp add: documents_exampleInitial)
  then show ?thesis
    by (simp add: documents_exampleInitial) (simp add: initialState_def)
qed

section \<open>The initial-text query parameter is consumed once\<close>

lemma queryEffect_consumed: "hasAppendedQuery st \<Longrightarrow> queryEffect cid q st = st"
  by (simp add: queryEffect_def split: option.splits)

lemma renderPasses_consumed: "hasAppendedQuery st \<Longrightarrow> renderPasses cid qs st = st"
  by (induction qs) (simp_all add: queryEffect_consumed)

lemma queryEffect_first:
  "q \<noteq> [] \<Longrightarrow> \<not> hasAppendedQuery st \<Longrightarrow>
     queryEffect cid (Some q) st =
       st\<lparr>sent := sent st @ [\<lparr>role = User, parts = [TextPart q]\<rparr>],
          hasAppendedQuery := True, visibleUrl := ''/chat/'' @ cid\<rparr>"
  by (simp add: queryEffect_def)

lemma renderPasses_sends_at_most_one:
  "length (sent (renderPasses cid qs st)) \<le>
     length (sent st) + (if hasAppendedQuery st then 0 else 1)"
proof (induction qs arbitrary: st)
  case Nil
  show ?case by simp
next
  case (Cons q qs)
  show ?case
  proof (cases "hasAppendedQuery st")
    case True
    then show ?thesis
      by (simp add: queryEffect_consumed renderPasses_consumed)
  next
    case False
    show ?thesis
    proof (cases "\<exists>t. q = Some t \<and> t \<noteq> []")
      case True
      then obtain t where "q = Some t" "t \<noteq> []" by blast
      with False show ?thesis
        by (simp add: queryEffect_first renderPasses_consumed)
    next
      case no: False
      then have "queryEffect cid q st = st"
        by (cases q) (auto simp: queryEffect_def)
      with Cons.IH [of st] False show ?thesis
        by simp
    qed
  qed
qed

text \<open>
  Claim C5. When the query parameter carries text and the consumption flag is unset, the
  effect sends exactly one user turn with that text, replaces the visible URL by the
  chat's path without the parameter and sets the flag; no later render pass sends
  anything, whatever query value it reads. Over all the render passes of a mounted
  session at most one turn is sent.
\<close>

theorem initial_query_consumed_once:
  "(q \<noteq> [] \<and> \<not> hasAppendedQuery st \<longrightarrow>
      sent (queryEffect cid (Some q) st) = sent st @ [\<lparr>role = User, parts = [TextPart q]\<rparr>] \<and>
      visibleUrl (queryEffect cid (Some q) st) = ''/chat/'' @ cid \<and>
      hasAppendedQuery (queryEffect cid (Some q) st) \<and>
      sent (renderPasses cid qs (queryEffect cid (Some q) st)) =
        sent (queryEffect cid (Some q) st)) \<and>
   length (sent (renderPasses cid qs (mountChat url))) \<le> 1"
proof (intro conjI impI)
  assume h: "q \<noteq> [] \<and> \<not> hasAppendedQuery st"
  then have f: "queryEffect cid (Some q) st =
       st\<lparr>sent := sent st @ [\<lparr>role = User, parts = [TextPart q]\<rparr>],
          hasAppendedQuery := True, visibleUrl := ''/chat/'' @ cid\<rparr>"
    by (simp add: queryEffect_first)
  show "sent (queryEffect cid (Some q) st) = sent st @ [\<lparr>role = User, parts = [TextPart q]\<rparr>]"
    and "visibleUrl (queryEffect cid (Some q) st) = ''/chat/'' @ cid"
    and c: "hasAppendedQuery (queryEffect cid (Some q) st)"
    by (simp_all add: f)
  show "sent (renderPasses cid qs (queryEffect cid (Some q) st)) =
        sent (queryEffect cid (Some q) st)"
    by (simp add: renderPasses_consumed [OF c])
next
  show "length (sent (renderPasses cid qs (mountChat url))) \<le> 1"
    using renderPasses_sends_at_most_one [of cid qs "mountChat url"]
    by (simp add: mountChat_def)
qed

theorem initial_query_consumed_once_witness:
  "sent (queryEffect ''c1'' (Some ''hi'') (mountChat ''/chat/c1?query=hi'')) =
     [\<lparr>role = User, parts = [TextPart ''hi'']\<rparr>] \<and>
   visibleUrl (queryEffect ''c1'' (Some ''hi'') (mountChat ''/chat/c1?query=hi'')) = ''/chat/c1'' \<and>
   sent (renderPasses ''c1'' [Some ''hi'', None]
          (queryEffect ''c1'' (Some ''hi'') (mountChat ''/chat/c1?query=hi''))) =
     [\<lparr>role = User, parts = [TextPart ''hi'']\<rparr>] \<and>
   length (sent (renderPasses ''c1'' [Some ''hi'', None] (mountChat ''/chat/c1?query=hi''))) \<le> 1"
  using initial_query_consumed_once
          [of "''hi''" "mountChat ''/chat/c1?query=hi''" "''c1''" "[Some ''hi'', None]"
              "''/chat/c1?query=hi''"]
  by (simp add: mountChat_def)

end
